theory Spec2Isabelle
  imports Main
begin

section \<open>Strings\<close>

text \<open>
  Source strings are modelled as \<^typ>\<open>string\<close>; a \<^typ>\<open>char\<close> stands for a code unit
  below 256. \<open>String.prototype.trim\<close> strips white space and line terminators from both
  ends; among the code units below 256 these are TAB, LF, VT, FF, CR, SP and NBSP.
\<close>

definition isWhiteSpace :: "char \<Rightarrow> bool" where
  "isWhiteSpace c \<longleftrightarrow>
     c \<in> set [CHR 0x09, CHR 0x0A, CHR 0x0B, CHR 0x0C, CHR 0x0D, CHR 0x20, CHR 0xA0]"

definition trim :: "string \<Rightarrow> string" where
  "trim s = rev (dropWhile isWhiteSpace (rev (dropWhile isWhiteSpace s)))"

definition startsWith :: "string \<Rightarrow> string \<Rightarrow> bool" where
  "startsWith s p \<longleftrightarrow> take (length p) s = p"

text \<open>\<open>!s\<close> on a string: only the empty string is falsy.\<close>

definition falsy :: "string \<Rightarrow> bool" where
  "falsy s \<longleftrightarrow> s = []"

text \<open>\<open>!v\<close> on a value that is a string or \<open>undefined\<close> (an environment variable).\<close>

definition unset :: "string option \<Rightarrow> bool" where
  "unset v \<longleftrightarrow> (case v of None \<Rightarrow> True | Some k \<Rightarrow> falsy k)"

section \<open>The explanation service: \<open>claudeApi.ts\<close>\<close>

text \<open>
  What \<open>axios.post\<close> was called with: the endpoint, the \<open>x-api-key\<close> header and the
  fields of the body.
\<close>

record request =
  endpoint :: string
  x_api_key :: string
  model :: string
  max_tokens :: nat
  content :: string

text \<open>
  How the awaited \<open>axios.post\<close> settles: it resolves with a body whose
  \<open>content[0].text\<close> is the pseudocode; or it rejects with an \<open>err\<close> that has a
  \<open>response\<close> (its \<open>status\<close>, the optional \<open>response.data.error?.message\<close>, and
  \<open>err.message\<close>); or it rejects with an \<open>err\<close> without \<open>response\<close> (only
  \<open>err.message\<close>). The bodies are taken as axios delivers the service's JSON replies:
  reading \<open>content[0].text\<close> or \<open>data.error\<close> does not itself throw.
\<close>

datatype axios_result =
    Resolved string
  | RejectedResponse nat "string option" string
  | RejectedNoResponse string

text \<open>
  \<open>codeToPseudocode\<close> throws plain \<open>Error\<close> objects at three places. Each constructor
  is one of them and carries the values interpolated into its message:
  \<^item> \<open>MissingCredentialError\<close>: line 14, thrown when \<open>CLAUDE_API_KEY\<close> is not set;
  \<^item> \<open>TranslationServiceError status msg\<close>: line 48, message
    \<open>Claude API ... (status): msg\<close>;
  \<^item> \<open>TransportError msg\<close>: line 51, message \<open>Claude API ...: msg\<close>.
\<close>

datatype error =
    MissingCredentialError
  | TranslationServiceError nat string
  | TransportError string

definition userMessage :: "string \<Rightarrow> string" where
  "userMessage code =
     ''Please convert the following code into detailed pseudocode. '' @
     ''No additional explanations are needed; output only the pseudocode: '' @
     [CHR 0x0A, CHR 0x0A] @ code"

definition mk_request :: "string \<Rightarrow> string \<Rightarrow> request" where
  "mk_request key code =
     \<lparr>endpoint = ''https://api.anthropic.com/v1/messages'',
      x_api_key = key,
      model = ''claude-3-7-sonnet-20250219'',
      max_tokens = 1024,
      content = userMessage code\<rparr>"

text \<open>\<open>a || b\<close> where \<open>a\<close> is a string or \<open>undefined\<close>.\<close>

definition or_else :: "string option \<Rightarrow> string \<Rightarrow> string" where
  "or_else a b = (case a of None \<Rightarrow> b | Some m \<Rightarrow> if falsy m then b else m)"

section \<open>The extension: state and handlers\<close>

text \<open>
  Messages passed to \<open>vscode.window.showErrorMessage\<close>, one constructor for each of
  the four texts: "open a code file first" (line 142), "the file is empty" (line 155),
  "CLAUDE_API_KEY not found" (line 166), and "conversion failed" followed by the message
  of the caught error (line 193).
\<close>

datatype ui_message =
    OpenFileFirst
  | FileEmpty
  | KeyNotFound
  | ConversionFailed error

text \<open>
  The module's state: \<open>pseudocodeCache\<close>, \<open>pseudocodePanel\<close> (the pseudocode it shows,
  \<open>None\<close> for \<open>undefined\<close>), \<open>process.env.CLAUDE_API_KEY\<close>, and two logs of what the
  handlers did to the outside: the requests posted and the error messages shown.
\<close>

text \<open>
  A handler is run to its end in one step. The only place where the source suspends is
  the awaited request; how that request settles is an argument of the handler.
\<close>

record state =
  cache :: "string \<rightharpoonup> string"
  panel :: "string option"
  env_key :: "string option"
  requests :: "request list"
  messages :: "ui_message list"

text \<open>
  Lines 43 to 52: what \<open>codeToPseudocode\<close> returns or throws once the request has
  settled.
\<close>

definition settled :: "axios_result \<Rightarrow> error + string" where
  "settled r =
     (case r of
        Resolved txt \<Rightarrow> Inr txt
      | RejectedResponse status upstream msg \<Rightarrow>
          Inl (TranslationServiceError status (or_else upstream msg))
      | RejectedNoResponse msg \<Rightarrow> Inl (TransportError msg))"

definition codeToPseudocode :: "state \<Rightarrow> string \<Rightarrow> axios_result \<Rightarrow> (error + string) \<times> state" where
  "codeToPseudocode s code r =
     (case env_key s of
        None \<Rightarrow> (Inl MissingCredentialError, s)
      | Some apiKey \<Rightarrow>
          if falsy apiKey then (Inl MissingCredentialError, s)
          else (settled r, s\<lparr>requests := requests s @ [mk_request apiKey code]\<rparr>))"

text \<open>One entry of \<open>event.contentChanges\<close>.\<close>

record change =
  change_text :: string
  rangeLength :: nat

definition hasRealChanges :: "change list \<Rightarrow> bool" where
  "hasRealChanges cs = list_ex (\<lambda>c. trim (change_text c) \<noteq> [] \<or> rangeLength c > 0) cs"

definition onDidChangeTextDocument :: "state \<Rightarrow> change list \<Rightarrow> state" where
  "onDidChangeTextDocument s cs =
     (if length cs > 0 then
        (if hasRealChanges cs then s\<lparr>cache := Map.empty\<rparr> else s)
      else s)"

text \<open>
  What \<open>provideHover\<close> returns: \<open>None\<close> is \<open>null\<close>; the hovers carry the line number
  shown (\<open>position.line + 1\<close>), the trimmed line and the pseudocode or the error.
\<close>

datatype hover =
    KeyMissingHover
  | CachedHover nat string string
  | ResultHover nat string string
  | FailureHover nat string error

definition provideHover :: "state \<Rightarrow> string \<Rightarrow> nat \<Rightarrow> axios_result \<Rightarrow> hover option \<times> state" where
  "provideHover s line_text line_no r =
     (let lineText = trim line_text in
      if falsy lineText \<or> startsWith lineText ''#'' then (None, s)
      else if unset (env_key s) then (Some KeyMissingHover, s)
      else
        let cacheKey = lineText in
        (case cache s cacheKey of
           Some cachedPseudocode \<Rightarrow> (Some (CachedHover (line_no + 1) lineText cachedPseudocode), s)
         | None \<Rightarrow>
             (case codeToPseudocode s lineText r of
                (Inr pseudocode, s') \<Rightarrow>
                  (Some (ResultHover (line_no + 1) lineText pseudocode),
                   s'\<lparr>cache := (cache s')(cacheKey \<mapsto> pseudocode)\<rparr>)
              | (Inl err, s') \<Rightarrow> (Some (FailureHover (line_no + 1) lineText err), s'))))"

text \<open>
  The active editor as \<open>convertToPseudocode\<close> reads it: \<open>document.getText(selection)\<close>
  and \<open>document.getText()\<close>.
\<close>

record editor =
  selectionText :: string
  documentText :: string

definition showErrorMessage :: "ui_message \<Rightarrow> state \<Rightarrow> state" where
  "showErrorMessage m s = s\<lparr>messages := messages s @ [m]\<rparr>"

text \<open>
  \<open>showPseudocodePanel\<close> sets the panel's content in both branches (an existing panel
  is updated, otherwise one is created).
\<close>

definition showPseudocodePanel :: "string \<Rightarrow> state \<Rightarrow> state" where
  "showPseudocodePanel pseudocode s = s\<lparr>panel := Some pseudocode\<rparr>"

text \<open>The place where \<open>convertToPseudocode\<close> returns.\<close>

datatype exit =
    NoEditor
  | EmptyInput
  | NoCredential
  | Displayed string
  | Failed error

text \<open>Lines 161 to 196 of \<open>convertToPseudocode\<close>, once \<open>selectedText\<close> is settled.\<close>

definition convertSelected :: "state \<Rightarrow> bool \<Rightarrow> string \<Rightarrow> axios_result \<Rightarrow> exit \<times> state" where
  "convertSelected s isAutoUpdate selectedText r =
     (if unset (env_key s) then
        (NoCredential, if \<not> isAutoUpdate then showErrorMessage KeyNotFound s else s)
      else
        (case codeToPseudocode s selectedText r of
           (Inr pseudocode, s') \<Rightarrow> (Displayed pseudocode, showPseudocodePanel pseudocode s')
         | (Inl err, s') \<Rightarrow>
             (Failed err,
              if \<not> isAutoUpdate then showErrorMessage (ConversionFailed err) s' else s')))"

definition convertToPseudocode :: "state \<Rightarrow> bool \<Rightarrow> editor option \<Rightarrow> axios_result \<Rightarrow> exit \<times> state" where
  "convertToPseudocode s isAutoUpdate ed r =
     (case ed of
        None \<Rightarrow> (NoEditor, if \<not> isAutoUpdate then showErrorMessage OpenFileFirst s else s)
      | Some e \<Rightarrow>
          if falsy (trim (selectionText e)) then
            (if falsy (trim (documentText e)) then
               (EmptyInput, if \<not> isAutoUpdate then showErrorMessage FileEmpty s else s)
             else convertSelected s isAutoUpdate (documentText e) r)
          else convertSelected s isAutoUpdate (selectionText e) r)"

text \<open>
  At activation the cache is a new, empty map and there is no panel; the key is whatever
  the environment holds.
\<close>

definition initial :: "string option \<Rightarrow> state" where
  "initial key = \<lparr>cache = Map.empty, panel = None, env_key = key, requests = [], messages = []\<rparr>"

text \<open>
  The two calls by which the module changes \<open>pseudocodeCache\<close>: \<open>set\<close> (line 107) and
  \<open>clear\<close> (line 58). A read is \<open>has\<close> followed by \<open>get\<close>, the application of the
  map to the key.
\<close>

datatype cache_op = CacheSet string string | CacheClear

fun perform :: "(string \<rightharpoonup> string) \<Rightarrow> cache_op \<Rightarrow> (string \<rightharpoonup> string)" where
  "perform c (CacheSet k v) = c(k \<mapsto> v)"
| "perform c CacheClear = Map.empty"

text \<open>A text is blank when it is empty or consists of white space only.\<close>

definition blank :: "string \<Rightarrow> bool" where
  "blank t \<longleftrightarrow> list_all isWhiteSpace t"





section \<open>Basic facts\<close>

lemma all_dropWhile_iff: "(\<forall>x \<in> set (dropWhile P t). P x) \<longleftrightarrow> (\<forall>c \<in> set t. P c)"
  by (induction t) auto

lemma trim_Nil_iff: "trim t = [] \<longleftrightarrow> blank t"
  by (simp add: trim_def blank_def all_dropWhile_iff list_all_iff)

lemma falsy_trim_iff: "falsy (trim t) \<longleftrightarrow> blank t"
  by (simp add: falsy_def trim_Nil_iff)

lemma hasRealChanges_iff:
  "hasRealChanges cs \<longleftrightarrow> (\<exists>c \<in> set cs. \<not> blank (change_text c) \<or> 0 < rangeLength c)"
  by (simp add: hasRealChanges_def list_ex_iff trim_Nil_iff)

lemma hasRealChanges_Nil: "\<not> hasRealChanges []"
  by (simp add: hasRealChanges_def)

section \<open>The cache\<close>

lemma entry_survives:
  "c F = Some E \<Longrightarrow> \<forall>op \<in> set ops. op \<noteq> CacheClear \<and> (\<forall>E'. op \<noteq> CacheSet F E') \<Longrightarrow>
   foldl perform c ops F = Some E"
proof (induction ops arbitrary: c)
  case Nil
  then show ?case by simp
next
  case (Cons op ops)
  have "perform c op F = Some E"
  proof (cases op)
    case (CacheSet k v)
    with Cons.prems have "k \<noteq> F" by auto
    with CacheSet Cons.prems(1) show ?thesis by simp
  next
    case CacheClear
    with Cons.prems show ?thesis by simp
  qed
  moreover have "\<forall>op \<in> set ops. op \<noteq> CacheClear \<and> (\<forall>E'. op \<noteq> CacheSet F E')"
    using Cons.prems(2) by simp
  ultimately show ?case using Cons.IH by simp
qed

section \<open>Invalidation\<close>

text \<open>
  C9: after the cache has been cleared by a change event with real changes, no fragment
  has an entry, whatever was stored before.
\<close>

theorem invalidate_all_absent:
  "hasRealChanges cs \<Longrightarrow> cache (onDidChangeTextDocument s cs) F = None"
  by (cases cs) (simp_all add: onDidChangeTextDocument_def hasRealChanges_Nil)

theorem invalidate_all_absent_witness:
  "hasRealChanges [\<lparr>change_text = ''y = 2'', rangeLength = 0\<rparr>] \<and>
   cache (onDidChangeTextDocument
            \<lparr>cache = [''x = 1'' \<mapsto> ''set x to 1''], panel = None, env_key = Some ''k'',
             requests = [], messages = []\<rparr>
            [\<lparr>change_text = ''y = 2'', rangeLength = 0\<rparr>]) ''x = 1'' = None"
proof -
  have h: "hasRealChanges [\<lparr>change_text = ''y = 2'', rangeLength = 0\<rparr>]"
    by (simp add: hasRealChanges_def trim_def isWhiteSpace_def)
  show ?thesis using h invalidate_all_absent [OF h] by simp
qed

text \<open>
  C3, as stated, fails: a change that deletes one character has an empty changed text,
  and the handler clears the cache all the same, because the replaced range is not empty.
\<close>

theorem change_deletion_counterexample:
  "\<not> ((cache (onDidChangeTextDocument
                \<lparr>cache = [''x = 1'' \<mapsto> ''set x to 1''], panel = None, env_key = Some ''k'',
                 requests = [], messages = []\<rparr>
                [\<lparr>change_text = '''', rangeLength = 1\<rparr>]) ''x = 1'' = None)
       \<longleftrightarrow> (\<not> blank (change_text \<lparr>change_text = '''', rangeLength = 1\<rparr>) \<and>
            change_text \<lparr>change_text = '''', rangeLength = 1\<rparr> \<noteq> []))"
  by (simp add: onDidChangeTextDocument_def hasRealChanges_def)

text \<open>
  C3, amended: a change event clears the whole cache if and only if one of its changes
  has a changed text that is not blank or replaces a range of length greater than zero;
  otherwise the handler leaves the state as it is.
\<close>

theorem change_event_clears_iff:
  "((\<exists>c \<in> set cs. \<not> blank (change_text c) \<or> 0 < rangeLength c) \<longrightarrow>
      onDidChangeTextDocument s cs = s\<lparr>cache := Map.empty\<rparr>) \<and>
   (\<not> (\<exists>c \<in> set cs. \<not> blank (change_text c) \<or> 0 < rangeLength c) \<longrightarrow>
      onDidChangeTextDocument s cs = s)"
proof -
  have "cs = [] \<Longrightarrow> \<not> hasRealChanges cs"
    by (simp add: hasRealChanges_Nil)
  then show ?thesis
    unfolding hasRealChanges_iff [symmetric]
    by (auto simp: onDidChangeTextDocument_def)
qed

theorem change_event_clears_iff_witness:
  "onDidChangeTextDocument
     \<lparr>cache = [''x = 1'' \<mapsto> ''set x to 1''], panel = None, env_key = Some ''k'',
      requests = [], messages = []\<rparr>
     [\<lparr>change_text = ''  '', rangeLength = 0\<rparr>] =
     \<lparr>cache = [''x = 1'' \<mapsto> ''set x to 1''], panel = None, env_key = Some ''k'',
      requests = [], messages = []\<rparr> \<and>
   onDidChangeTextDocument
     \<lparr>cache = [''x = 1'' \<mapsto> ''set x to 1''], panel = None, env_key = Some ''k'',
      requests = [], messages = []\<rparr>
     [\<lparr>change_text = ''y = 2'', rangeLength = 0\<rparr>] =
     \<lparr>cache = Map.empty, panel = None, env_key = Some ''k'', requests = [], messages = []\<rparr>"
proof -
  have a: "\<not> (\<exists>c \<in> set [\<lparr>change_text = ''  '', rangeLength = 0\<rparr>].
               \<not> blank (change_text c) \<or> 0 < rangeLength c)"
    by (simp add: blank_def isWhiteSpace_def)
  have b: "\<exists>c \<in> set [\<lparr>change_text = ''y = 2'', rangeLength = 0\<rparr>].
               \<not> blank (change_text c) \<or> 0 < rangeLength c"
    by (simp add: blank_def isWhiteSpace_def)
  show ?thesis
    using a b
      change_event_clears_iff [of "[\<lparr>change_text = ''  '', rangeLength = 0\<rparr>]"
        "\<lparr>cache = [''x = 1'' \<mapsto> ''set x to 1''], panel = None, env_key = Some ''k'',
          requests = [], messages = []\<rparr>"]
      change_event_clears_iff [of "[\<lparr>change_text = ''y = 2'', rangeLength = 0\<rparr>]"
        "\<lparr>cache = [''x = 1'' \<mapsto> ''set x to 1''], panel = None, env_key = Some ''k'',
          requests = [], messages = []\<rparr>"]
    by simp
qed

section \<open>The request\<close>

lemma codeToPseudocode_unset:
  "unset (env_key s) \<Longrightarrow> codeToPseudocode s code r = (Inl MissingCredentialError, s)"
  by (simp add: codeToPseudocode_def unset_def split: option.splits)

lemma codeToPseudocode_key:
  "env_key s = Some k \<Longrightarrow> \<not> falsy k \<Longrightarrow>
   codeToPseudocode s code r = (settled r, s\<lparr>requests := requests s @ [mk_request k code]\<rparr>)"
  by (simp add: codeToPseudocode_def)

lemma unset_key: "unset (Some k) \<longleftrightarrow> falsy k"
  by (simp add: unset_def)

lemma settled_rejected:
  "settled (RejectedResponse status upstream msg) =
     Inl (TranslationServiceError status (or_else upstream msg))"
  "settled (RejectedNoResponse msg) = Inl (TransportError msg)"
  "settled (Resolved txt) = Inr txt"
  by (simp_all add: settled_def)

section \<open>The hover\<close>

lemma provideHover_skip:
  "blank line \<or> startsWith (trim line) ''#'' \<Longrightarrow> provideHover s line n r = (None, s)"
  by (auto simp: provideHover_def falsy_trim_iff Let_def)

lemma provideHover_unset:
  "\<not> blank line \<Longrightarrow> \<not> startsWith (trim line) ''#'' \<Longrightarrow> unset (env_key s) \<Longrightarrow>
   provideHover s line n r = (Some KeyMissingHover, s)"
  by (simp add: provideHover_def falsy_trim_iff Let_def)

lemma provideHover_hit:
  "\<not> blank line \<Longrightarrow> \<not> startsWith (trim line) ''#'' \<Longrightarrow> \<not> unset (env_key s) \<Longrightarrow>
   cache s (trim line) = Some E \<Longrightarrow>
   provideHover s line n r = (Some (CachedHover (n + 1) (trim line) E), s)"
  by (simp add: provideHover_def falsy_trim_iff Let_def)

lemma provideHover_miss:
  "\<not> blank line \<Longrightarrow> \<not> startsWith (trim line) ''#'' \<Longrightarrow> env_key s = Some k \<Longrightarrow> \<not> falsy k \<Longrightarrow>
   cache s (trim line) = None \<Longrightarrow>
   provideHover s line n r =
     (case settled r of
        Inr pseudocode \<Rightarrow>
          (Some (ResultHover (n + 1) (trim line) pseudocode),
           s\<lparr>requests := requests s @ [mk_request k (trim line)],
             cache := (cache s)(trim line \<mapsto> pseudocode)\<rparr>)
      | Inl err \<Rightarrow>
          (Some (FailureHover (n + 1) (trim line) err),
           s\<lparr>requests := requests s @ [mk_request k (trim line)]\<rparr>))"
  by (simp add: provideHover_def falsy_trim_iff Let_def unset_key codeToPseudocode_key
      split: sum.splits)

section \<open>The command\<close>

lemma convertSelected_unset:
  "unset (env_key s) \<Longrightarrow>
   convertSelected s a t r = (NoCredential, if a then s else showErrorMessage KeyNotFound s)"
  by (simp add: convertSelected_def)

lemma convertSelected_key:
  "env_key s = Some k \<Longrightarrow> \<not> falsy k \<Longrightarrow>
   convertSelected s a t r =
     (case settled r of
        Inr pseudocode \<Rightarrow>
          (Displayed pseudocode,
           showPseudocodePanel pseudocode (s\<lparr>requests := requests s @ [mk_request k t]\<rparr>))
      | Inl err \<Rightarrow>
          (Failed err,
           if a then s\<lparr>requests := requests s @ [mk_request k t]\<rparr>
           else showErrorMessage (ConversionFailed err)
                  (s\<lparr>requests := requests s @ [mk_request k t]\<rparr>)))"
  by (simp add: convertSelected_def unset_key codeToPseudocode_key split: sum.splits)

lemma convertToPseudocode_empty:
  "blank (selectionText e) \<Longrightarrow> blank (documentText e) \<Longrightarrow>
   convertToPseudocode s a (Some e) r =
     (EmptyInput, if a then s else showErrorMessage FileEmpty s)"
  by (simp add: convertToPseudocode_def falsy_trim_iff)

lemma convertToPseudocode_document:
  "blank (selectionText e) \<Longrightarrow> \<not> blank (documentText e) \<Longrightarrow>
   convertToPseudocode s a (Some e) r = convertSelected s a (documentText e) r"
  by (simp add: convertToPseudocode_def falsy_trim_iff)

lemma convertToPseudocode_selection:
  "\<not> blank (selectionText e) \<Longrightarrow>
   convertToPseudocode s a (Some e) r = convertSelected s a (selectionText e) r"
  by (simp add: convertToPseudocode_def falsy_trim_iff)

lemma convertSelected_not_empty: "fst (convertSelected s a t r) \<noteq> EmptyInput"
  by (simp add: convertSelected_def split: prod.splits sum.splits)

lemma showErrorMessage_fields:
  "cache (showErrorMessage m s) = cache s"
  "requests (showErrorMessage m s) = requests s"
  "env_key (showErrorMessage m s) = env_key s"
  "panel (showErrorMessage m s) = panel s"
  by (simp_all add: showErrorMessage_def)

lemma showPseudocodePanel_fields:
  "cache (showPseudocodePanel p s) = cache s"
  "requests (showPseudocodePanel p s) = requests s"
  "env_key (showPseudocodePanel p s) = env_key s"
  by (simp_all add: showPseudocodePanel_def)

section \<open>Missing credential\<close>

text \<open>
  C6: with no credential in the environment, \<open>codeToPseudocode\<close> fails with the
  missing-credential error for every fragment and leaves the state, and so the list of
  posted requests, as it was. The hover and the command post nothing either; a hover on
  a line of code answers with the missing-key hover, and a command with something to
  convert leaves at the missing-credential exit, reporting the missing key when it was
  invoked by hand.
\<close>

theorem missing_credential_no_network:
  "unset (env_key s) \<Longrightarrow>
     codeToPseudocode s F r = (Inl MissingCredentialError, s) \<and>
     requests (snd (provideHover s line n r)) = requests s \<and>
     requests (snd (convertToPseudocode s a ed r)) = requests s \<and>
     (\<not> blank line \<and> \<not> startsWith (trim line) ''#'' \<longrightarrow>
        provideHover s line n r = (Some KeyMissingHover, s)) \<and>
     (\<not> (blank (selectionText e) \<and> blank (documentText e)) \<longrightarrow>
        convertToPseudocode s a (Some e) r =
          (NoCredential, if a then s else showErrorMessage KeyNotFound s))"
proof -
  assume u: "unset (env_key s)"
  have hover: "requests (snd (provideHover s line n r)) = requests s"
  proof (cases "blank line \<or> startsWith (trim line) ''#''")
    case True
    then show ?thesis by (simp add: provideHover_skip)
  next
    case False
    with u show ?thesis by (simp add: provideHover_unset)
  qed
  have sel: "requests (snd (convertSelected s a t r)) = requests s" for t
    using u by (simp add: convertSelected_unset showErrorMessage_fields)
  have cmd: "requests (snd (convertToPseudocode s a ed r)) = requests s"
  proof (cases ed)
    case None
    then show ?thesis
      by (simp add: convertToPseudocode_def showErrorMessage_fields)
  next
    case (Some e')
    show ?thesis
    proof (cases "blank (selectionText e')")
      case True
      note bs = this
      show ?thesis
      proof (cases "blank (documentText e')")
        case True
        with bs Some show ?thesis
          by (simp add: convertToPseudocode_empty showErrorMessage_fields)
      next
        case False
        with bs Some sel show ?thesis
          by (simp add: convertToPseudocode_document)
      qed
    next
      case False
      with Some sel show ?thesis
        by (simp add: convertToPseudocode_selection)
    qed
  qed
  have exit: "convertToPseudocode s a (Some e) r =
      (NoCredential, if a then s else showErrorMessage KeyNotFound s)"
    if "\<not> (blank (selectionText e) \<and> blank (documentText e))"
  proof (cases "blank (selectionText e)")
    case True
    with that u show ?thesis
      by (simp add: convertToPseudocode_document convertSelected_unset)
  next
    case False
    with u show ?thesis
      by (simp add: convertToPseudocode_selection convertSelected_unset)
  qed
  from u hover cmd exit show ?thesis
    by (simp add: codeToPseudocode_unset provideHover_unset)
qed

theorem missing_credential_no_network_witness:
  "unset (env_key (initial None)) \<and>
   codeToPseudocode (initial None) ''x = 1'' (Resolved ''set x to 1'') =
     (Inl MissingCredentialError, initial None) \<and>
   provideHover (initial None) ''x = 1'' 0 (Resolved ''set x to 1'') =
     (Some KeyMissingHover, initial None) \<and>
   convertToPseudocode (initial None) False
          (Some \<lparr>selectionText = ''x = 1'', documentText = ''x = 1''\<rparr>)
          (Resolved ''set x to 1'') =
     (NoCredential, showErrorMessage KeyNotFound (initial None))"
proof -
  have u: "unset (env_key (initial None))"
    by (simp add: initial_def unset_def)
  have l: "\<not> blank ''x = 1'' \<and> \<not> startsWith (trim ''x = 1'') ''#''"
    by (simp add: blank_def isWhiteSpace_def startsWith_def trim_def)
  have e: "\<not> (blank (selectionText \<lparr>selectionText = ''x = 1'', documentText = ''x = 1''\<rparr>) \<and>
              blank (documentText \<lparr>selectionText = ''x = 1'', documentText = ''x = 1''\<rparr>))"
    by (simp add: blank_def isWhiteSpace_def)
  show ?thesis
    using u l e
      missing_credential_no_network [OF u, of "''x = 1''" "Resolved ''set x to 1''" "''x = 1''" 0
        False "Some \<lparr>selectionText = ''x = 1'', documentText = ''x = 1''\<rparr>"
        "\<lparr>selectionText = ''x = 1'', documentText = ''x = 1''\<rparr>"]
    by simp
qed

section \<open>Service failures\<close>

text \<open>
  C7: with a credential present, a rejection that carries a response makes
  \<open>codeToPseudocode\<close> fail with the service error holding the response's status and the
  upstream message (the transport's own message when the upstream one is missing or
  empty); a rejection without a response makes it fail with the transport error. The
  hover on an uncached line of code and the command with something to convert end with
  that same error.
\<close>

theorem service_failure_errors:
  "env_key s = Some k \<Longrightarrow> \<not> falsy k \<Longrightarrow>
     fst (codeToPseudocode s F (RejectedResponse status (Some m) msg)) =
       Inl (TranslationServiceError status (if m = [] then msg else m)) \<and>
     fst (codeToPseudocode s F (RejectedResponse status None msg)) =
       Inl (TranslationServiceError status msg) \<and>
     fst (codeToPseudocode s F (RejectedNoResponse msg)) = Inl (TransportError msg) \<and>
     (\<not> blank line \<and> \<not> startsWith (trim line) ''#'' \<and> cache s (trim line) = None \<longrightarrow>
        fst (provideHover s line n (RejectedResponse status upstream msg)) =
          Some (FailureHover (n + 1) (trim line)
                  (TranslationServiceError status (or_else upstream msg))) \<and>
        fst (provideHover s line n (RejectedNoResponse msg)) =
          Some (FailureHover (n + 1) (trim line) (TransportError msg))) \<and>
     (\<not> blank (selectionText e) \<longrightarrow>
        fst (convertToPseudocode s a (Some e) (RejectedResponse status upstream msg)) =
          Failed (TranslationServiceError status (or_else upstream msg)) \<and>
        fst (convertToPseudocode s a (Some e) (RejectedNoResponse msg)) =
          Failed (TransportError msg))"
  by (simp add: codeToPseudocode_key settled_rejected or_else_def falsy_def provideHover_miss
      convertToPseudocode_selection convertSelected_key)

theorem service_failure_errors_witness:
  "fst (codeToPseudocode (initial (Some ''k'')) ''x = y''
          (RejectedResponse 401 (Some ''invalid x-api-key'') ''Request failed'')) =
     Inl (TranslationServiceError 401 ''invalid x-api-key'') \<and>
   fst (codeToPseudocode (initial (Some ''k'')) ''x = y'' (RejectedNoResponse ''offline'')) =
     Inl (TransportError ''offline'') \<and>
   fst (provideHover (initial (Some ''k'')) ''x = y'' 0
          (RejectedResponse 401 (Some ''invalid x-api-key'') ''Request failed'')) =
     Some (FailureHover 1 ''x = y'' (TranslationServiceError 401 ''invalid x-api-key''))"
proof -
  have k: "env_key (initial (Some ''k'')) = Some ''k''" "\<not> falsy ''k''"
    by (simp_all add: initial_def falsy_def)
  have l: "\<not> blank ''x = y'' \<and> \<not> startsWith (trim ''x = y'') ''#'' \<and>
           cache (initial (Some ''k'')) (trim ''x = y'') = None"
    by (simp add: blank_def isWhiteSpace_def startsWith_def trim_def initial_def)
  have t: "trim ''x = y'' = ''x = y''"
    by (simp add: trim_def isWhiteSpace_def)
  show ?thesis
    using l t
      service_failure_errors [OF k, of "''x = y''" 401 "''invalid x-api-key''" "''Request failed''"
        "''x = y''" 0 "Some ''invalid x-api-key''"
        "\<lparr>selectionText = ''x = y'', documentText = ''x = y''\<rparr>" False]
      service_failure_errors [OF k, of "''x = y''" 401 "''invalid x-api-key''" "''offline''"
        "''x = y''" 0 "Some ''invalid x-api-key''"
        "\<lparr>selectionText = ''x = y'', documentText = ''x = y''\<rparr>" False]
    by (simp add: or_else_def falsy_def)
qed

section \<open>Blank input\<close>

text \<open>
  C10: in the command, a blank selection makes the handler behave as it does when the
  whole document is selected; it leaves at the empty-input exit exactly when the
  selection and the document are both blank; and with a blank selection, a document that
  is not blank and a credential, the one request posted is for the document's text.
\<close>

theorem blank_selection_falls_back:
  "(blank (selectionText e) \<longrightarrow>
      convertToPseudocode s a (Some e) r =
        convertToPseudocode s a (Some (e\<lparr>selectionText := documentText e\<rparr>)) r) \<and>
   (fst (convertToPseudocode s a (Some e) r) = EmptyInput \<longleftrightarrow>
      blank (selectionText e) \<and> blank (documentText e)) \<and>
   (blank (selectionText e) \<and> \<not> blank (documentText e) \<and> env_key s = Some k \<and> \<not> falsy k \<longrightarrow>
      requests (snd (convertToPseudocode s a (Some e) r)) =
        requests s @ [mk_request k (documentText e)])"
proof -
  have fall: "convertToPseudocode s a (Some e) r =
      convertToPseudocode s a (Some (e\<lparr>selectionText := documentText e\<rparr>)) r"
    if "blank (selectionText e)"
  proof (cases "blank (documentText e)")
    case True
    with that show ?thesis by (simp add: convertToPseudocode_empty)
  next
    case False
    with that show ?thesis
      by (simp add: convertToPseudocode_document convertToPseudocode_selection)
  qed
  have empty: "fst (convertToPseudocode s a (Some e) r) = EmptyInput \<longleftrightarrow>
      blank (selectionText e) \<and> blank (documentText e)"
  proof (cases "blank (selectionText e)")
    case True
    note bs = this
    show ?thesis
    proof (cases "blank (documentText e)")
      case True
      with bs show ?thesis by (simp add: convertToPseudocode_empty)
    next
      case False
      with bs show ?thesis
        by (simp add: convertToPseudocode_document convertSelected_not_empty)
    qed
  next
    case False
    then show ?thesis
      by (simp add: convertToPseudocode_selection convertSelected_not_empty)
  qed
  have doc: "requests (snd (convertToPseudocode s a (Some e) r)) =
      requests s @ [mk_request k (documentText e)]"
    if "blank (selectionText e)" "\<not> blank (documentText e)" "env_key s = Some k" "\<not> falsy k"
    using that
    by (simp add: convertToPseudocode_document convertSelected_key showErrorMessage_fields
        showPseudocodePanel_fields split: sum.splits)
  from fall empty doc show ?thesis by blast
qed

theorem blank_selection_falls_back_witness:
  "convertToPseudocode (initial (Some ''k'')) False
     (Some \<lparr>selectionText = ''   '', documentText = ''x = 1''\<rparr>) (Resolved ''set x to 1'') =
   convertToPseudocode (initial (Some ''k'')) False
     (Some \<lparr>selectionText = ''x = 1'', documentText = ''x = 1''\<rparr>) (Resolved ''set x to 1'') \<and>
   fst (convertToPseudocode (initial (Some ''k'')) False
     (Some \<lparr>selectionText = ''   '', documentText = ''x = 1''\<rparr>) (Resolved ''set x to 1''))
     \<noteq> EmptyInput \<and>
   requests (snd (convertToPseudocode (initial (Some ''k'')) False
     (Some \<lparr>selectionText = ''   '', documentText = ''x = 1''\<rparr>) (Resolved ''set x to 1''))) =
     requests (initial (Some ''k'')) @ [mk_request ''k'' ''x = 1'']"
proof -
  have b: "blank ''   ''" "\<not> blank ''x = 1''"
    by (simp_all add: blank_def isWhiteSpace_def)
  have k: "env_key (initial (Some ''k'')) = Some ''k''" "\<not> falsy ''k''"
    by (simp_all add: initial_def falsy_def)
  have e: "selectionText \<lparr>selectionText = ''   '', documentText = ''x = 1''\<rparr> = ''   ''"
    "documentText \<lparr>selectionText = ''   '', documentText = ''x = 1''\<rparr> = ''x = 1''"
    "\<lparr>selectionText = ''   '', documentText = ''x = 1''\<rparr>\<lparr>selectionText := ''x = 1''\<rparr> =
       \<lparr>selectionText = ''x = 1'', documentText = ''x = 1''\<rparr>"
    by simp_all
  note th = blank_selection_falls_back [of "\<lparr>selectionText = ''   '', documentText = ''x = 1''\<rparr>"
        "initial (Some ''k'')" False "Resolved ''set x to 1''" "''k''", unfolded e]
  from th b k show ?thesis by blast
qed

text \<open>
  C5, as stated, fails in the command: with a selection of three spaces and a document
  that holds code, the handler posts a request for the document and shows the answer.
\<close>

theorem blank_selection_counterexample:
  "blank ''   '' \<and>
   fst (convertToPseudocode (initial (Some ''k'')) False
          (Some \<lparr>selectionText = ''   '', documentText = ''x = 1''\<rparr>) (Resolved ''set x to 1''))
     = Displayed ''set x to 1'' \<and>
   requests (snd (convertToPseudocode (initial (Some ''k'')) False
          (Some \<lparr>selectionText = ''   '', documentText = ''x = 1''\<rparr>) (Resolved ''set x to 1'')))
     = [mk_request ''k'' ''x = 1'']"
  by (simp add: convertToPseudocode_def convertSelected_def codeToPseudocode_def settled_def
      showPseudocodePanel_def initial_def unset_def falsy_def trim_def blank_def isWhiteSpace_def)

text \<open>
  C5, amended: a hover on a blank line returns \<open>null\<close> and leaves the state as it is; a
  command whose selection and document are both blank leaves at the empty-input exit,
  posts no request and does not touch the cache, and reports the empty file only when it
  was invoked by hand.
\<close>

theorem blank_input_no_call:
  "(blank line \<longrightarrow> provideHover s line n r = (None, s)) \<and>
   (blank (selectionText e) \<and> blank (documentText e) \<longrightarrow>
      fst (convertToPseudocode s a (Some e) r) = EmptyInput \<and>
      requests (snd (convertToPseudocode s a (Some e) r)) = requests s \<and>
      cache (snd (convertToPseudocode s a (Some e) r)) = cache s \<and>
      messages (snd (convertToPseudocode s a (Some e) r)) =
        (if a then messages s else messages s @ [FileEmpty]))"
  by (simp add: provideHover_skip convertToPseudocode_empty showErrorMessage_def)

theorem blank_input_no_call_witness:
  "provideHover (initial (Some ''k'')) ''   '' 0 (Resolved ''set x to 1'') =
     (None, initial (Some ''k'')) \<and>
   fst (convertToPseudocode (initial (Some ''k'')) False
          (Some \<lparr>selectionText = '''', documentText = ''   ''\<rparr>) (Resolved ''set x to 1''))
     = EmptyInput \<and>
   requests (snd (convertToPseudocode (initial (Some ''k'')) False
          (Some \<lparr>selectionText = '''', documentText = ''   ''\<rparr>) (Resolved ''set x to 1'')))
     = [] \<and>
   messages (snd (convertToPseudocode (initial (Some ''k'')) False
          (Some \<lparr>selectionText = '''', documentText = ''   ''\<rparr>) (Resolved ''set x to 1'')))
     = [FileEmpty]"
proof -
  have b: "blank ''   ''" "blank ''''"
    by (simp_all add: blank_def isWhiteSpace_def)
  have i: "requests (initial (Some ''k'')) = []" "messages (initial (Some ''k'')) = []"
    by (simp_all add: initial_def)
  show ?thesis
    using b i
      blank_input_no_call [of "''   ''" "initial (Some ''k'')" 0 "Resolved ''set x to 1''"
        "\<lparr>selectionText = '''', documentText = ''   ''\<rparr>" False]
    by simp
qed

section \<open>Effects of one invocation\<close>

lemma codeToPseudocode_effects:
  "cache (snd (codeToPseudocode s code r)) = cache s \<and>
   (requests (snd (codeToPseudocode s code r)) = requests s \<or>
    (\<exists>q. requests (snd (codeToPseudocode s code r)) = requests s @ [q]))"
  by (simp add: codeToPseudocode_def split: option.splits)

lemma provideHover_requests:
  "requests (snd (provideHover s line n r)) = requests s \<or>
   (\<exists>q. requests (snd (provideHover s line n r)) = requests s @ [q])"
  using codeToPseudocode_effects [of s "trim line" r]
  by (auto simp: provideHover_def Let_def split: option.splits sum.splits prod.splits)

lemma provideHover_cache:
  "cache (snd (provideHover s line n r)) = cache s \<or>
   (\<exists>v. cache (snd (provideHover s line n r)) = (cache s)(trim line \<mapsto> v))"
  using codeToPseudocode_effects [of s "trim line" r]
  by (auto simp: provideHover_def Let_def split: option.splits sum.splits prod.splits)

lemma convertSelected_effects:
  "cache (snd (convertSelected s a t r)) = cache s \<and>
   (requests (snd (convertSelected s a t r)) = requests s \<or>
    (\<exists>q. requests (snd (convertSelected s a t r)) = requests s @ [q]))"
  using codeToPseudocode_effects [of s t r]
  by (auto simp: convertSelected_def showErrorMessage_fields showPseudocodePanel_fields
      split: sum.splits prod.splits)

lemma convertToPseudocode_effects:
  "cache (snd (convertToPseudocode s a ed r)) = cache s \<and>
   (requests (snd (convertToPseudocode s a ed r)) = requests s \<or>
    (\<exists>q. requests (snd (convertToPseudocode s a ed r)) = requests s @ [q]))"
proof (cases ed)
  case None
  then show ?thesis
    by (simp add: convertToPseudocode_def showErrorMessage_fields)
next
  case (Some e)
  show ?thesis
  proof (cases "blank (selectionText e)")
    case True
    note bs = this
    show ?thesis
    proof (cases "blank (documentText e)")
      case True
      with bs Some show ?thesis
        by (simp add: convertToPseudocode_empty showErrorMessage_fields)
    next
      case False
      with bs Some show ?thesis
        using convertSelected_effects [of s a "documentText e" r]
        by (simp add: convertToPseudocode_document)
    qed
  next
    case False
    with Some show ?thesis
      using convertSelected_effects [of s a "selectionText e" r]
      by (simp add: convertToPseudocode_selection)
  qed
qed

text \<open>
  C8: one invocation of the hover or of the command posts at most one request and
  changes the cache by at most one \<open>set\<close> (the command never changes it). A hover on a
  line of code that is not cached, with a credential, posts exactly one request; when
  that request fails, the hover answers with the error, and the state differs from the
  one before only by the one request posted: nothing is stored and nothing is posted
  again. A command on a selection that is not blank, with a credential, posts exactly one
  request, and when that request fails it leaves at the failure exit.
\<close>

theorem one_call_one_mutation:
  "(requests (snd (provideHover s line n r)) = requests s \<or>
    (\<exists>q. requests (snd (provideHover s line n r)) = requests s @ [q])) \<and>
   (cache (snd (provideHover s line n r)) = cache s \<or>
    (\<exists>v. cache (snd (provideHover s line n r)) = (cache s)(trim line \<mapsto> v))) \<and>
   (requests (snd (convertToPseudocode s a ed r)) = requests s \<or>
    (\<exists>q. requests (snd (convertToPseudocode s a ed r)) = requests s @ [q])) \<and>
   cache (snd (convertToPseudocode s a ed r)) = cache s \<and>
   (\<not> blank line \<and> \<not> startsWith (trim line) ''#'' \<and> env_key s = Some k \<and> \<not> falsy k \<and>
    cache s (trim line) = None \<longrightarrow>
      requests (snd (provideHover s line n r)) = requests s @ [mk_request k (trim line)] \<and>
      (\<forall>err. settled r = Inl err \<longrightarrow>
         provideHover s line n r =
           (Some (FailureHover (n + 1) (trim line) err),
            s\<lparr>requests := requests s @ [mk_request k (trim line)]\<rparr>))) \<and>
   (\<not> blank (selectionText e) \<and> env_key s = Some k \<and> \<not> falsy k \<longrightarrow>
      requests (snd (convertToPseudocode s a (Some e) r)) =
        requests s @ [mk_request k (selectionText e)] \<and>
      (\<forall>err. settled r = Inl err \<longrightarrow> fst (convertToPseudocode s a (Some e) r) = Failed err))"
proof -
  have miss: "requests (snd (provideHover s line n r)) = requests s @ [mk_request k (trim line)] \<and>
      (\<forall>err. settled r = Inl err \<longrightarrow>
         provideHover s line n r =
           (Some (FailureHover (n + 1) (trim line) err),
            s\<lparr>requests := requests s @ [mk_request k (trim line)]\<rparr>))"
    if "\<not> blank line" "\<not> startsWith (trim line) ''#''" "env_key s = Some k" "\<not> falsy k"
       "cache s (trim line) = None"
    using that by (simp add: provideHover_miss split: sum.splits)
  have cmd: "requests (snd (convertToPseudocode s a (Some e) r)) =
        requests s @ [mk_request k (selectionText e)] \<and>
      (\<forall>err. settled r = Inl err \<longrightarrow> fst (convertToPseudocode s a (Some e) r) = Failed err)"
    if "\<not> blank (selectionText e)" "env_key s = Some k" "\<not> falsy k"
    using that
    by (simp add: convertToPseudocode_selection convertSelected_key showErrorMessage_fields
        showPseudocodePanel_fields split: sum.splits)
  from miss cmd provideHover_requests [of s line n r] provideHover_cache [of s line n r]
    convertToPseudocode_effects [of s a ed r]
  show ?thesis by blast
qed

theorem one_call_one_mutation_witness:
  "provideHover (initial (Some ''k'')) ''x = 1'' 0 (RejectedNoResponse ''offline'') =
     (Some (FailureHover (0 + 1) (trim ''x = 1'') (TransportError ''offline'')),
      (initial (Some ''k''))
        \<lparr>requests := requests (initial (Some ''k'')) @ [mk_request ''k'' (trim ''x = 1'')]\<rparr>) \<and>
   requests (snd (convertToPseudocode (initial (Some ''k'')) False
      (Some \<lparr>selectionText = ''x = 1'', documentText = ''x = 1''\<rparr>)
      (RejectedNoResponse ''offline''))) =
     requests (initial (Some ''k'')) @ [mk_request ''k'' ''x = 1'']"
proof -
  have l: "\<not> blank ''x = 1''" "\<not> startsWith (trim ''x = 1'') ''#''"
    by (simp_all add: blank_def isWhiteSpace_def startsWith_def trim_def)
  have k: "env_key (initial (Some ''k'')) = Some ''k''" "\<not> falsy ''k''"
       "cache (initial (Some ''k'')) (trim ''x = 1'') = None"
    by (simp_all add: initial_def falsy_def)
  have r: "settled (RejectedNoResponse ''offline'') = Inl (TransportError ''offline'')"
    by (simp add: settled_def)
  have e: "selectionText \<lparr>selectionText = ''x = 1'', documentText = ''x = 1''\<rparr> = ''x = 1''"
    by simp
  note th = one_call_one_mutation [of "initial (Some ''k'')" "''x = 1''" 0
      "RejectedNoResponse ''offline''" False
      "Some \<lparr>selectionText = ''x = 1'', documentText = ''x = 1''\<rparr>" "''k''"
      "\<lparr>selectionText = ''x = 1'', documentText = ''x = 1''\<rparr>", unfolded e]
  from th l k r show ?thesis by blast
qed

text \<open>
  Seen from the map, a hover is at most one \<open>set\<close> and a change event at most one
  \<open>clear\<close>; the command is no call at all.
\<close>

lemma provideHover_performs:
  "\<exists>ops. length ops \<le> 1 \<and> cache (snd (provideHover s line n r)) = foldl perform (cache s) ops"
proof -
  consider "cache (snd (provideHover s line n r)) = cache s"
    | v where "cache (snd (provideHover s line n r)) = (cache s)(trim line \<mapsto> v)"
    using provideHover_cache [of s line n r] by blast
  then show ?thesis
  proof cases
    case 1
    then have "length ([] :: cache_op list) \<le> 1 \<and>
        cache (snd (provideHover s line n r)) = foldl perform (cache s) []"
      by simp
    then show ?thesis by blast
  next
    case 2
    then have "length [CacheSet (trim line) v] \<le> 1 \<and>
        cache (snd (provideHover s line n r)) = foldl perform (cache s) [CacheSet (trim line) v]"
      by simp
    then show ?thesis by blast
  qed
qed

lemma onDidChangeTextDocument_performs:
  "cache (onDidChangeTextDocument s cs) =
     foldl perform (cache s) (if hasRealChanges cs then [CacheClear] else [])"
  by (cases cs) (simp_all add: onDidChangeTextDocument_def hasRealChanges_Nil)

section \<open>Cache hits and cache keys\<close>

text \<open>
  C1, as stated, fails in the command: after a hover has stored the pseudocode of
  \<open>x = 1\<close>, a command on the selection \<open>x = 1\<close> does not read the cache; it posts a
  second request and shows what the service answers.
\<close>

theorem command_ignores_cache_counterexample:
  "cache (snd (provideHover (initial (Some ''k'')) ''x = 1'' 0 (Resolved ''set x to 1'')))
     ''x = 1'' = Some ''set x to 1'' \<and>
   fst (convertToPseudocode
          (snd (provideHover (initial (Some ''k'')) ''x = 1'' 0 (Resolved ''set x to 1'')))
          False (Some \<lparr>selectionText = ''x = 1'', documentText = ''x = 1''\<rparr>)
          (Resolved ''X := 1'')) = Displayed ''X := 1'' \<and>
   requests (snd (convertToPseudocode
          (snd (provideHover (initial (Some ''k'')) ''x = 1'' 0 (Resolved ''set x to 1'')))
          False (Some \<lparr>selectionText = ''x = 1'', documentText = ''x = 1''\<rparr>)
          (Resolved ''X := 1''))) =
     [mk_request ''k'' ''x = 1'', mk_request ''k'' ''x = 1'']"
  by (simp add: provideHover_def convertToPseudocode_def convertSelected_def
      codeToPseudocode_def settled_def showPseudocodePanel_def initial_def unset_def falsy_def
      startsWith_def trim_def isWhiteSpace_def Let_def)

text \<open>
  C1, amended: in the hover, for a line of code (not blank, not a comment) whose trimmed
  text has an entry in the cache, and with a credential in the environment, the answer is
  the cached pseudocode and the state is left as it is: no request is posted and the
  cache is not changed.
\<close>

theorem hover_cached_no_call:
  "\<not> blank line \<Longrightarrow> \<not> startsWith (trim line) ''#'' \<Longrightarrow> \<not> unset (env_key s) \<Longrightarrow>
   cache s (trim line) = Some E \<Longrightarrow>
     provideHover s line n r = (Some (CachedHover (n + 1) (trim line) E), s) \<and>
     requests (snd (provideHover s line n r)) = requests s \<and>
     cache (snd (provideHover s line n r)) = cache s"
  by (simp add: provideHover_hit)

theorem hover_cached_no_call_witness:
  "fst (provideHover
     \<lparr>cache = [''x = 1'' \<mapsto> ''set x to 1''], panel = None, env_key = Some ''k'',
      requests = [], messages = []\<rparr> ''x = 1'' 0 (Resolved ''other'')) =
     Some (CachedHover 1 ''x = 1'' ''set x to 1'') \<and>
   requests (snd (provideHover
     \<lparr>cache = [''x = 1'' \<mapsto> ''set x to 1''], panel = None, env_key = Some ''k'',
      requests = [], messages = []\<rparr> ''x = 1'' 0 (Resolved ''other''))) = []"
proof -
  have t: "trim ''x = 1'' = ''x = 1''"
    by (simp add: trim_def isWhiteSpace_def)
  have h: "\<not> blank ''x = 1''" "\<not> startsWith (trim ''x = 1'') ''#''"
    "\<not> unset (env_key \<lparr>cache = [''x = 1'' \<mapsto> ''set x to 1''], panel = None,
        env_key = Some ''k'', requests = [], messages = []\<rparr>)"
    "cache \<lparr>cache = [''x = 1'' \<mapsto> ''set x to 1''], panel = None,
        env_key = Some ''k'', requests = [], messages = []\<rparr> (trim ''x = 1'') = Some ''set x to 1''"
    by (simp_all add: t blank_def isWhiteSpace_def startsWith_def unset_def falsy_def)
  show ?thesis
    using hover_cached_no_call [OF h, of 0 "Resolved ''other''"] by (simp add: t)
qed

text \<open>
  C4, as stated, fails: the key is the trimmed line. After a hover on the indented line
  \<open>  x = 1\<close>, a hover on the line \<open>x = 1\<close>, which differs from it only in white space,
  is answered from the cache, and the only request posted is the first hover's.
\<close>

theorem trimmed_key_counterexample:
  "''  x = 1'' \<noteq> ''x = 1'' \<and>
   fst (provideHover
          (snd (provideHover (initial (Some ''k'')) ''  x = 1'' 3 (Resolved ''set x to 1'')))
          ''x = 1'' 7 (Resolved ''other'')) = Some (CachedHover 8 ''x = 1'' ''set x to 1'') \<and>
   requests (snd (provideHover
          (snd (provideHover (initial (Some ''k'')) ''  x = 1'' 3 (Resolved ''set x to 1'')))
          ''x = 1'' 7 (Resolved ''other''))) = [mk_request ''k'' ''x = 1'']"
  by (simp add: provideHover_def codeToPseudocode_def settled_def initial_def unset_def
      falsy_def startsWith_def trim_def isWhiteSpace_def Let_def)

text \<open>
  C4, amended: the key is the hovered line with the white space at its two ends trimmed,
  and nothing else is normalised. A hover that gets an answer from the service stores it
  under the trimmed line, and no hover creates or changes the entry of a line whose
  trimmed text is different.
\<close>

theorem distinct_keys_independent:
  "(trim l1 \<noteq> trim l2 \<longrightarrow>
      cache (snd (provideHover s l1 n r)) (trim l2) = cache s (trim l2)) \<and>
   (\<not> blank l1 \<and> \<not> startsWith (trim l1) ''#'' \<and> env_key s = Some k \<and> \<not> falsy k \<and>
    cache s (trim l1) = None \<longrightarrow>
      cache (snd (provideHover s l1 n (Resolved p))) = (cache s)(trim l1 \<mapsto> p))"
proof -
  have other: "cache (snd (provideHover s l1 n r)) (trim l2) = cache s (trim l2)"
    if "trim l1 \<noteq> trim l2"
    using provideHover_cache [of s l1 n r] that by auto
  have stored: "cache (snd (provideHover s l1 n (Resolved p))) = (cache s)(trim l1 \<mapsto> p)"
    if "\<not> blank l1" "\<not> startsWith (trim l1) ''#''" "env_key s = Some k" "\<not> falsy k"
       "cache s (trim l1) = None"
    using that by (simp add: provideHover_miss settled_rejected)
  from other stored show ?thesis by blast
qed

theorem distinct_keys_independent_witness:
  "cache (snd (provideHover (initial (Some ''k'')) ''x = 1'' 0 (Resolved ''set x to 1'')))
     (trim ''x  =  1'') = cache (initial (Some ''k'')) (trim ''x  =  1'') \<and>
   cache (snd (provideHover (initial (Some ''k'')) ''x = 1'' 0 (Resolved ''set x to 1''))) =
     (cache (initial (Some ''k'')))(trim ''x = 1'' \<mapsto> ''set x to 1'')"
proof -
  have t: "trim ''x = 1'' \<noteq> trim ''x  =  1''"
    by (simp add: trim_def isWhiteSpace_def)
  have l: "\<not> blank ''x = 1''" "\<not> startsWith (trim ''x = 1'') ''#''"
    by (simp_all add: blank_def isWhiteSpace_def startsWith_def trim_def)
  have k: "env_key (initial (Some ''k'')) = Some ''k''" "\<not> falsy ''k''"
       "cache (initial (Some ''k'')) (trim ''x = 1'') = None"
    by (simp_all add: initial_def falsy_def)
  note th = distinct_keys_independent [of "''x = 1''" "''x  =  1''" "initial (Some ''k'')" 0
      "Resolved ''set x to 1''" "''k''" "''set x to 1''"]
  from th t l k show ?thesis by blast
qed

section \<open>Stored entries\<close>





lemma onDidChangeTextDocument_env: "env_key (onDidChangeTextDocument s cs) = env_key s"
  by (simp add: onDidChangeTextDocument_def)







end
